theory Spec2Isabelle
  imports Complex_Main "HOL-Library.Sublist"
begin

section \<open>Strings\<close>

text \<open>
  A Python \<open>str\<close> is modelled as a \<open>string\<close>, the list of its characters; text beyond
  ASCII is the list of the bytes of its UTF-8 form, on which equality, concatenation,
  emptiness and the substring test are those of the \<open>str\<close>. The operator \<open>in\<close> on two
  strings is the substring test.

  The methods \<open>str.lower\<close> and \<open>str.upper\<close> are the case mappings of the Python runtime,
  which follow Unicode. They are not defined here: each function that calls them takes
  them as the parameters \<open>lower\<close> and \<open>upper\<close>, and nothing is assumed of them.
\<close>

fun starts_with :: "string \<Rightarrow> string \<Rightarrow> bool" where
  "starts_with [] ys = True"
| "starts_with (x # xs) [] = False"
| "starts_with (x # xs) (y # ys) = (x = y \<and> starts_with xs ys)"

text \<open>\<open>py_in a b\<close> is Python's \<open>a in b\<close> on strings.\<close>

fun py_in :: "string \<Rightarrow> string \<Rightarrow> bool" where
  "py_in xs [] = (xs = [])"
| "py_in xs (y # ys) = (starts_with xs (y # ys) \<or> py_in xs ys)"

text \<open>\<open>str(n)\<close> for an integer, as used by the f-strings of the error details.\<close>

definition digit_char :: "nat \<Rightarrow> char" where
  "digit_char d = char_of (48 + d)"

fun digits :: "nat \<Rightarrow> string" where
  "digits n = (if n < 10 then [digit_char n] else digits (n div 10) @ [digit_char (n mod 10)])"

declare digits.simps [simp del]

definition str_int :: "int \<Rightarrow> string" where
  "str_int i = (if i < 0 then CHR ''-'' # digits (nat (- i)) else digits (nat i))"

section \<open>Data model\<close>

text \<open>
  The tables hold dicts of the shape of the pydantic models; each is a record. The keys
  \<open>id\<close> and \<open>name\<close> of a team are the fields \<open>team_id\<close> and \<open>team_name\<close>.
\<close>

record player =
  name :: string
  position :: string
  height :: string
  weight :: string
  last_attended :: string
  country :: string

record team =
  team_id :: int
  team_name :: string
  roster :: "player list"

text \<open>The field \<open>PCT\<close> is a float that the program only passes on; its type is left open.\<close>

record 'f standing =
  Team :: string
  W :: int
  L :: int
  PCT :: 'f
  GB :: string
  L10 :: string
  Strk :: string

record game =
  team1 :: string
  team2 :: string
  date :: string
  location :: string

text \<open>
  The four module-level tables. They are imported from modules of their own and never
  changed; every handler reads them.
\<close>

record 'f tables =
  team_data :: "team list"
  standings_data_eastern :: "'f standing list"
  standings_data_western :: "'f standing list"
  games_data :: "game list"

datatype http_error = HTTPException (status_code: int) (detail: string)

section \<open>Team endpoints\<close>

text \<open>\<open>next((x for x in xs if P x), None)\<close>: the first element that satisfies \<open>P\<close>.\<close>

fun next_or_none :: "('a \<Rightarrow> bool) \<Rightarrow> 'a list \<Rightarrow> 'a option" where
  "next_or_none P [] = None"
| "next_or_none P (x # xs) = (if P x then Some x else next_or_none P xs)"

definition get_team_by_id :: "'f tables \<Rightarrow> int \<Rightarrow> http_error + team" where
  "get_team_by_id T tid =
     (case next_or_none (\<lambda>t. team_id t = tid) (team_data T) of
        None \<Rightarrow> Inl (HTTPException 404 (''Team with ID '' @ str_int tid @ '' not found''))
      | Some t \<Rightarrow> Inr t)"

definition get_team_by_name ::
  "(string \<Rightarrow> string) \<Rightarrow> 'f tables \<Rightarrow> string \<Rightarrow> http_error + team" where
  "get_team_by_name lower T tname =
     (case next_or_none (\<lambda>t. lower (team_name t) = lower tname) (team_data T) of
        None \<Rightarrow> Inl (HTTPException 404 (''Team '' @ [CHR 0x27] @ tname @ [CHR 0x27] @ '' not found''))
      | Some t \<Rightarrow> Inr t)"

definition get_team_roster :: "'f tables \<Rightarrow> int \<Rightarrow> http_error + player list" where
  "get_team_roster T tid =
     (case next_or_none (\<lambda>t. team_id t = tid) (team_data T) of
        None \<Rightarrow> Inl (HTTPException 404 (''Team with ID '' @ str_int tid @ '' not found''))
      | Some t \<Rightarrow> Inr (roster t))"


record 'f team_standing =
  ts_team :: string
  ts_standing :: "'f standing"

text \<open>
  \<open>get_team_standing\<close> looks the team up by id, then scans
  \<open>standings_data_eastern\<close> for an entry whose \<open>Team\<close> equals the team's name.
\<close>

definition get_team_standing :: "'f tables \<Rightarrow> int \<Rightarrow> http_error + 'f team_standing" where
  "get_team_standing T tid =
     (case next_or_none (\<lambda>t. team_id t = tid) (team_data T) of
        None \<Rightarrow> Inl (HTTPException 404 (''Team with ID '' @ str_int tid @ '' not found''))
      | Some t \<Rightarrow>
          (case next_or_none (\<lambda>s. Team s = team_name t) (standings_data_eastern T) of
             None \<Rightarrow> Inl (HTTPException 404 (''Standing data not found for '' @ team_name t))
           | Some s \<Rightarrow> Inr \<lparr>ts_team = team_name t, ts_standing = s\<rparr>))"

section \<open>Search endpoints\<close>

text \<open>
  A query parameter is \<open>Optional[str]\<close>. The handlers test it with \<open>if name and ...\<close>:
  \<open>None\<close> and the empty string are both false there.
\<close>

definition truthy :: "string option \<Rightarrow> bool" where
  "truthy q = (case q of None \<Rightarrow> False | Some s \<Rightarrow> s \<noteq> [])"

record player_result =
  pr_player :: player
  pr_team :: string

record player_search =
  count :: int
  results :: "player_result list"

text \<open>The body of the inner loop of \<open>search_players\<close>: the value of \<open>match\<close> for one player.\<close>

definition player_match ::
  "(string \<Rightarrow> string) \<Rightarrow> (string \<Rightarrow> string) \<Rightarrow>
   string option \<Rightarrow> string option \<Rightarrow> string option \<Rightarrow> player \<Rightarrow> bool" where
  "player_match lower upper qname qposition qcountry p =
     (let match = True;
          match = (if truthy qname \<and> \<not> py_in (lower (the qname)) (lower (name p))
                   then False else match);
          match = (if truthy qposition \<and> \<not> py_in (upper (the qposition)) (upper (position p))
                   then False else match);
          match = (if truthy qcountry \<and> \<not> py_in (lower (the qcountry)) (lower (country p))
                   then False else match)
      in match)"

fun roster_loop ::
  "(player \<Rightarrow> bool) \<Rightarrow> string \<Rightarrow> player list \<Rightarrow> player_result list \<Rightarrow> player_result list" where
  "roster_loop matches tname [] res = res"
| "roster_loop matches tname (p # ps) res =
     roster_loop matches tname ps
       (if matches p then res @ [\<lparr>pr_player = p, pr_team = tname\<rparr>] else res)"

fun team_loop ::
  "(player \<Rightarrow> bool) \<Rightarrow> team list \<Rightarrow> player_result list \<Rightarrow> player_result list" where
  "team_loop matches [] res = res"
| "team_loop matches (t # ts) res =
     team_loop matches ts (roster_loop matches (team_name t) (roster t) res)"

definition search_players ::
  "(string \<Rightarrow> string) \<Rightarrow> (string \<Rightarrow> string) \<Rightarrow> 'f tables \<Rightarrow>
   string option \<Rightarrow> string option \<Rightarrow> string option \<Rightarrow> http_error + player_search" where
  "search_players lower upper T qname qposition qcountry =
     (let res = team_loop (player_match lower upper qname qposition qcountry) (team_data T) []
      in if res = [] then Inl (HTTPException 404 ''No players found matching the criteria'')
         else Inr \<lparr>count = int (length res), results = res\<rparr>)"

text \<open>The body of the loop of \<open>search_games\<close>: the value of \<open>match\<close> for one game.\<close>

definition game_match ::
  "(string \<Rightarrow> string) \<Rightarrow> string option \<Rightarrow> string option \<Rightarrow> game \<Rightarrow> bool" where
  "game_match lower qteam qdate g =
     (let match = True;
          match = (if truthy qteam \<and> \<not> py_in (lower (the qteam)) (lower (team1 g) @ lower (team2 g))
                   then False else match);
          match = (if truthy qdate \<and> the qdate \<noteq> date g then False else match)
      in match)"

fun game_loop :: "(game \<Rightarrow> bool) \<Rightarrow> game list \<Rightarrow> game list \<Rightarrow> game list" where
  "game_loop matches [] res = res"
| "game_loop matches (g # gs) res =
     game_loop matches gs (if matches g then res @ [g] else res)"

definition search_games ::
  "(string \<Rightarrow> string) \<Rightarrow> 'f tables \<Rightarrow> string option \<Rightarrow> string option \<Rightarrow> http_error + game list" where
  "search_games lower T qteam qdate =
     (let res = game_loop (game_match lower qteam qdate) (games_data T) []
      in if res = [] then Inl (HTTPException 404 ''No games found matching the criteria'')
         else Inr res)"

section \<open>Chat relay\<close>

record ChatMessage =
  role :: string
  content :: string

record ChatRequest =
  messages :: "ChatMessage list"

record ChatResponse =
  response :: string

text \<open>
  An outbound message is a dict with the keys \<open>role\<close> and \<open>content\<close>; its content is a
  plain string or a list of parts, each a dict with the keys \<open>type\<close> and \<open>text\<close>.
\<close>

record text_part =
  part_type :: string
  part_text :: string

datatype out_content = Plain string | Parts "text_part list"

record out_message =
  out_role :: string
  out_content :: out_content

text \<open>The loop that converts the request's messages; \<open>acc\<close> is the list \<open>messages\<close>.\<close>

fun convert_messages :: "ChatMessage list \<Rightarrow> out_message list \<Rightarrow> out_message list" where
  "convert_messages [] acc = acc"
| "convert_messages (msg # rest) acc =
     convert_messages rest
       (if role msg = ''system'' then
          acc @ [\<lparr>out_role = ''system'', out_content = Plain (content msg)\<rparr>]
        else if role msg = ''user'' then
          acc @ [\<lparr>out_role = ''user'',
                  out_content = Parts [\<lparr>part_type = ''text'', part_text = content msg\<rparr>]\<rparr>]
        else if role msg = ''assistant'' then
          acc @ [\<lparr>out_role = ''assistant'', out_content = Plain (content msg)\<rparr>]
        else acc)"

subsection \<open>Python values and the operations the extraction uses\<close>

text \<open>
  The value that \<open>model.chat\<close> returns is not typed by the program, which inspects it
  with \<open>hasattr\<close>, \<open>len\<close>, \<open>isinstance\<close>, \<open>in\<close>, attribute access and subscripts. Such
  a value is modelled as \<open>None\<close>, a boolean, an integer, a string, a list, a dict with
  string keys, an object of some class with named attributes, or an instance of a
  subclass of \<open>dict\<close>, which has a class, attributes and items. A dict is given by its
  items, each key once. Of these values only the last two kinds have attributes named
  \<open>choices\<close>, \<open>message\<close> or \<open>content\<close>.
\<close>

datatype pyval =
    PyNone
  | PyBool bool
  | PyInt int
  | PyStr string
  | PyList "pyval list"
  | PyDict "(string \<times> pyval) list"
  | PyObject string "(string \<times> pyval) list"
  | PyDictObject string "(string \<times> pyval) list" "(string \<times> pyval) list"

text \<open>
  The exceptions the relay can meet, each with what it failed on. \<open>LibraryError\<close> is an
  exception raised by the client library, with its class name and its message. They are
  all subclasses of \<open>Exception\<close>.
\<close>

datatype py_exception =
    AttributeError pyval string
  | TypeError_len pyval
  | TypeError_subscript pyval
  | IndexError pyval
  | KeyError pyval
  | ValidationError pyval
  | LibraryError string string

definition bind_exc :: "'e + 'a \<Rightarrow> ('a \<Rightarrow> 'e + 'b) \<Rightarrow> 'e + 'b" where
  "bind_exc m f = (case m of Inl e \<Rightarrow> Inl e | Inr x \<Rightarrow> f x)"

fun py_hasattr :: "pyval \<Rightarrow> string \<Rightarrow> bool" where
  "py_hasattr (PyObject cls attrs) a = (map_of attrs a \<noteq> None)"
| "py_hasattr (PyDictObject cls attrs kvs) a = (map_of attrs a \<noteq> None)"
| "py_hasattr v a = False"

fun py_getattr :: "pyval \<Rightarrow> string \<Rightarrow> py_exception + pyval" where
  "py_getattr (PyObject cls attrs) a =
     (case map_of attrs a of None \<Rightarrow> Inl (AttributeError (PyObject cls attrs) a) | Some v \<Rightarrow> Inr v)"
| "py_getattr (PyDictObject cls attrs kvs) a =
     (case map_of attrs a of
        None \<Rightarrow> Inl (AttributeError (PyDictObject cls attrs kvs) a)
      | Some v \<Rightarrow> Inr v)"
| "py_getattr v a = Inl (AttributeError v a)"

fun py_len :: "pyval \<Rightarrow> py_exception + nat" where
  "py_len (PyStr s) = Inr (length s)"
| "py_len (PyList xs) = Inr (length xs)"
| "py_len (PyDict kvs) = Inr (length kvs)"
| "py_len (PyDictObject cls attrs kvs) = Inr (length kvs)"
| "py_len v = Inl (TypeError_len v)"

text \<open>\<open>py_item0 v\<close> is \<open>v[0]\<close>. No key of a dict is the integer 0.\<close>

fun py_item0 :: "pyval \<Rightarrow> py_exception + pyval" where
  "py_item0 (PyList []) = Inl (IndexError (PyList []))"
| "py_item0 (PyList (x # xs)) = Inr x"
| "py_item0 (PyStr []) = Inl (IndexError (PyStr []))"
| "py_item0 (PyStr (c # cs)) = Inr (PyStr [c])"
| "py_item0 (PyDict kvs) = Inl (KeyError (PyInt 0))"
| "py_item0 (PyDictObject cls attrs kvs) = Inl (KeyError (PyInt 0))"
| "py_item0 v = Inl (TypeError_subscript v)"

text \<open>\<open>py_item v k\<close> is \<open>v[k]\<close> for a string \<open>k\<close>.\<close>

fun py_item :: "pyval \<Rightarrow> string \<Rightarrow> py_exception + pyval" where
  "py_item (PyDict kvs) k =
     (case map_of kvs k of None \<Rightarrow> Inl (KeyError (PyStr k)) | Some v \<Rightarrow> Inr v)"
| "py_item (PyDictObject cls attrs kvs) k =
     (case map_of kvs k of None \<Rightarrow> Inl (KeyError (PyStr k)) | Some v \<Rightarrow> Inr v)"
| "py_item v k = Inl (TypeError_subscript v)"

fun is_dict :: "pyval \<Rightarrow> bool" where
  "is_dict (PyDict kvs) = True"
| "is_dict (PyDictObject cls attrs kvs) = True"
| "is_dict v = False"

text \<open>\<open>py_has_key v k\<close> is \<open>k in v\<close>, for a dict \<open>v\<close>.\<close>

fun py_has_key :: "pyval \<Rightarrow> string \<Rightarrow> bool" where
  "py_has_key (PyDict kvs) k = (map_of kvs k \<noteq> None)"
| "py_has_key (PyDictObject cls attrs kvs) k = (map_of kvs k \<noteq> None)"
| "py_has_key v k = False"

subsection \<open>Extracting the reply\<close>

text \<open>
  The first test, \<open>hasattr(response, 'choices') and len(response.choices) > 0\<close>. The
  \<open>and\<close> does not evaluate \<open>len\<close> when \<open>hasattr\<close> is false.
\<close>

definition has_choices :: "pyval \<Rightarrow> py_exception + bool" where
  "has_choices r =
     (if py_hasattr r ''choices'' then
        bind_exc (py_getattr r ''choices'') (\<lambda>ch.
        bind_exc (py_len ch) (\<lambda>n. Inr (n > 0)))
      else Inr False)"

text \<open>
  \<open>extract_text str r\<close> is the value of \<open>response_text\<close> after the three branches, where
  \<open>str\<close> is Python's \<open>str\<close> on values.
\<close>

definition extract_text :: "(pyval \<Rightarrow> string) \<Rightarrow> pyval \<Rightarrow> py_exception + pyval" where
  "extract_text str r =
     bind_exc (has_choices r) (\<lambda>t1.
       if t1 then
         bind_exc (py_getattr r ''choices'') (\<lambda>ch.
         bind_exc (py_item0 ch) (\<lambda>c0.
         bind_exc (py_getattr c0 ''message'') (\<lambda>m.
         py_getattr m ''content'')))
       else if is_dict r \<and> py_has_key r ''choices'' then
         bind_exc (py_item r ''choices'') (\<lambda>ch.
         bind_exc (py_item0 ch) (\<lambda>c0.
         bind_exc (py_item c0 ''message'') (\<lambda>m.
         py_item m ''content'')))
       else Inr (PyStr (str r)))"

text \<open>\<open>ChatResponse(response=v)\<close>: the field is a \<open>str\<close>, and validation refuses the rest.\<close>

fun make_ChatResponse :: "pyval \<Rightarrow> py_exception + ChatResponse" where
  "make_ChatResponse (PyStr s) = Inr \<lparr>response = s\<rparr>"
| "make_ChatResponse v = Inl (ValidationError v)"

subsection \<open>The client library and the handler\<close>

record params =
  max_tokens :: int
  temperature :: real

record 'c model_args =
  model_id :: string
  api_client :: 'c
  model_params :: params
  project_id :: "string option"
  space_id :: "string option"
  verify :: bool

text \<open>
  The four entry points of the client library that the handler calls. Each returns a
  value or raises. \<open>'k\<close> is the type of credentials, \<open>'c\<close> of clients and \<open>'m\<close> of
  models. \<open>Credentials\<close> takes the url and the api key.
\<close>

record ('k, 'c, 'm) watsonx =
  Credentials :: "string option \<Rightarrow> string option \<Rightarrow> py_exception + 'k"
  APIClient :: "'k \<Rightarrow> py_exception + 'c"
  ModelInference :: "'c model_args \<Rightarrow> py_exception + 'm"
  model_chat :: "'m \<Rightarrow> out_message list \<Rightarrow> py_exception + pyval"

text \<open>
  A computation of the handler yields the calls it made to the library, in order, and
  its value or the exception that ended it.
\<close>

datatype lib_call =
    Call_Credentials
  | Call_APIClient
  | Call_ModelInference
  | Call_chat "out_message list"

type_synonym 'a run = "lib_call list \<times> (py_exception + 'a)"

definition call :: "lib_call \<Rightarrow> py_exception + 'a \<Rightarrow> 'a run" where
  "call c r = ([c], r)"

definition local :: "py_exception + 'a \<Rightarrow> 'a run" where
  "local r = ([], r)"

definition bind_run :: "'a run \<Rightarrow> ('a \<Rightarrow> 'b run) \<Rightarrow> 'b run" where
  "bind_run m f =
     (case m of
        (cs, Inl e) \<Rightarrow> (cs, Inl e)
      | (cs, Inr x) \<Rightarrow> (case f x of (cs', r) \<Rightarrow> (cs @ cs', r)))"

text \<open>\<open>getenv\<close> is \<open>os.getenv\<close>: the value of a variable of the environment, if set.\<close>

definition get_watsonx_client ::
  "('k, 'c, 'm) watsonx \<Rightarrow> (string \<Rightarrow> string option) \<Rightarrow> 'c run" where
  "get_watsonx_client lib getenv =
     bind_run (call Call_Credentials
                (Credentials lib (getenv ''WATSONX_URL'') (getenv ''WATSONX_API_KEY'')))
       (\<lambda>credentials. call Call_APIClient (APIClient lib credentials))"

text \<open>The keyword arguments of \<open>ModelInference(...)\<close>.\<close>

definition inference_args :: "'c \<Rightarrow> (string \<Rightarrow> string option) \<Rightarrow> 'c model_args" where
  "inference_args client getenv =
     \<lparr>model_id = ''ibm/granite-3-8b-instruct'', api_client = client,
      model_params = \<lparr>max_tokens = 500, temperature = 0.7\<rparr>,
      project_id = getenv ''WATSONX_PROJECT_ID'', space_id = None, verify = False\<rparr>"

text \<open>The body of the \<open>try\<close> block of \<open>chat\<close>.\<close>

definition chat_try ::
  "('k, 'c, 'm) watsonx \<Rightarrow> (string \<Rightarrow> string option) \<Rightarrow> (pyval \<Rightarrow> string) \<Rightarrow> ChatRequest
   \<Rightarrow> ChatResponse run" where
  "chat_try lib getenv str request =
     bind_run (get_watsonx_client lib getenv) (\<lambda>client.
     bind_run (call Call_ModelInference
                (ModelInference lib (inference_args client getenv))) (\<lambda>model.
     let msgs = convert_messages (messages request) [] in
     bind_run (call (Call_chat msgs) (model_chat lib model msgs)) (\<lambda>resp.
     bind_run (local (extract_text str resp)) (\<lambda>response_text.
     local (make_ChatResponse response_text)))))"

text \<open>
  The handler: \<open>except Exception as e\<close> turns every exception of the body into an
  \<open>HTTPException\<close> with status 500; \<open>str_exc\<close> is Python's \<open>str\<close> on exceptions.
\<close>

definition chat ::
  "('k, 'c, 'm) watsonx \<Rightarrow> (string \<Rightarrow> string option) \<Rightarrow> (pyval \<Rightarrow> string) \<Rightarrow>
   (py_exception \<Rightarrow> string) \<Rightarrow> ChatRequest \<Rightarrow> lib_call list \<times> (http_error + ChatResponse)" where
  "chat lib getenv str str_exc request =
     (case chat_try lib getenv str request of
        (cs, Inl e) \<Rightarrow> (cs, Inl (HTTPException 500 (''Chat error: '' @ str_exc e)))
      | (cs, Inr r) \<Rightarrow> (cs, Inr r))"

section \<open>What the specification calls a case-insensitive match\<close>

text \<open>
  Two strings are compared case-insensitively by bringing both to one case with a case
  mapping \<open>fcase\<close>, which is \<open>str.lower\<close> or \<open>str.upper\<close>. \<open>ci_equal fcase a b\<close>: \<open>a\<close> and
  \<open>b\<close> are equal up to letter case. \<open>ci_substring fcase q s\<close>: \<open>q\<close> is a substring of
  \<open>s\<close> up to letter case. \<open>ci_substring_pair fcase q a b\<close>: up to letter case, \<open>q\<close> is a
  substring of \<open>a\<close> followed by \<open>b\<close>. The empty string is a substring of every string.
\<close>

definition ci_equal :: "(string \<Rightarrow> string) \<Rightarrow> string \<Rightarrow> string \<Rightarrow> bool" where
  "ci_equal fcase a b = (fcase a = fcase b)"

definition ci_substring :: "(string \<Rightarrow> string) \<Rightarrow> string \<Rightarrow> string \<Rightarrow> bool" where
  "ci_substring fcase q s = (q = [] \<or> sublist (fcase q) (fcase s))"

definition ci_substring_pair ::
  "(string \<Rightarrow> string) \<Rightarrow> string \<Rightarrow> string \<Rightarrow> string \<Rightarrow> bool" where
  "ci_substring_pair fcase q a b = (q = [] \<or> sublist (fcase q) (fcase a @ fcase b))"

text \<open>\<open>filter_ok\<close> lifts a test to an optional filter: an absent filter is satisfied.\<close>

definition filter_ok :: "(string \<Rightarrow> bool) \<Rightarrow> string option \<Rightarrow> bool" where
  "filter_ok test q = (case q of None \<Rightarrow> True | Some s \<Rightarrow> test s)"

text \<open>
  Letter-case variants in ASCII, such as \<open>Lakers\<close>, \<open>LAKERS\<close> and \<open>lakers\<close>: two
  characters are the same letter when they are equal or are the upper-case and the
  lower-case form of one ASCII letter, and a variant of a string replaces characters by
  the same letter in the other case.
\<close>

definition same_letter :: "char \<Rightarrow> char \<Rightarrow> bool" where
  "same_letter a b =
     (let m = (of_char a :: nat); n = (of_char b :: nat)
      in a = b \<or> (65 \<le> m \<and> m \<le> 90 \<and> n = m + 32) \<or> (65 \<le> n \<and> n \<le> 90 \<and> m = n + 32))"

definition case_variant :: "string \<Rightarrow> string \<Rightarrow> bool" where
  "case_variant v w = list_all2 same_letter v w"

section \<open>The case mappings on ASCII text\<close>

text \<open>
  On a string of ASCII characters \<open>str.lower\<close> and \<open>str.upper\<close> change the letters
  \<open>A\<close> to \<open>Z\<close> and \<open>a\<close> to \<open>z\<close> and nothing else. The examples, which are ASCII text,
  are run with these two functions.
\<close>

definition ascii_lower_char :: "char \<Rightarrow> char" where
  "ascii_lower_char c =
     (let n = (of_char c :: nat) in if 65 \<le> n \<and> n \<le> 90 then char_of (n + 32) else c)"

definition ascii_upper_char :: "char \<Rightarrow> char" where
  "ascii_upper_char c =
     (let n = (of_char c :: nat) in if 97 \<le> n \<and> n \<le> 122 then char_of (n - 32) else c)"

definition ascii_lower :: "string \<Rightarrow> string" where
  "ascii_lower s = map ascii_lower_char s"

definition ascii_upper :: "string \<Rightarrow> string" where
  "ascii_upper s = map ascii_upper_char s"

section \<open>What the specification calls the tiers of the extraction\<close>

text \<open>
  The two access paths, \<open>response.choices[0].message.content\<close> and
  \<open>response['choices'][0]['message']['content']\<close>.
\<close>

definition structured_access :: "pyval \<Rightarrow> py_exception + pyval" where
  "structured_access r =
     bind_exc (py_getattr r ''choices'') (\<lambda>ch.
     bind_exc (py_item0 ch) (\<lambda>c0.
     bind_exc (py_getattr c0 ''message'') (\<lambda>m.
     py_getattr m ''content'')))"

definition mapping_access :: "pyval \<Rightarrow> py_exception + pyval" where
  "mapping_access r =
     bind_exc (py_item r ''choices'') (\<lambda>ch.
     bind_exc (py_item0 ch) (\<lambda>c0.
     bind_exc (py_item c0 ''message'') (\<lambda>m.
     py_item m ''content'')))"

text \<open>A value with a length: a string, a list or a dict.\<close>

fun sized :: "pyval \<Rightarrow> bool" where
  "sized (PyStr s) = True"
| "sized (PyList xs) = True"
| "sized (PyDict kvs) = True"
| "sized (PyDictObject cls attrs kvs) = True"
| "sized v = False"

fun elements :: "pyval \<Rightarrow> nat" where
  "elements (PyStr s) = length s"
| "elements (PyList xs) = length xs"
| "elements (PyDict kvs) = length kvs"
| "elements (PyDictObject cls attrs kvs) = length kvs"
| "elements v = 0"

text \<open>
  \<open>structured_match r\<close>: \<open>r\<close> has a \<open>choices\<close> attribute with at least one element.
  \<open>mapping_match r\<close>: \<open>r\<close> is a dict, or of a subclass of dict, with the key \<open>choices\<close>.
  \<open>unsized_choices r\<close>: the \<open>choices\<close> attribute of \<open>r\<close>, when it has one that has no
  length.
\<close>

definition choices_attr :: "pyval \<Rightarrow> pyval option" where
  "choices_attr r =
     (case r of
        PyObject cls attrs \<Rightarrow> map_of attrs ''choices''
      | PyDictObject cls attrs kvs \<Rightarrow> map_of attrs ''choices''
      | _ \<Rightarrow> None)"

definition structured_match :: "pyval \<Rightarrow> bool" where
  "structured_match r = (case choices_attr r of None \<Rightarrow> False | Some ch \<Rightarrow> 0 < elements ch)"

definition mapping_match :: "pyval \<Rightarrow> bool" where
  "mapping_match r =
     (case r of
        PyDict kvs \<Rightarrow> ''choices'' \<in> fst ` set kvs
      | PyDictObject cls attrs kvs \<Rightarrow> ''choices'' \<in> fst ` set kvs
      | _ \<Rightarrow> False)"

definition unsized_choices :: "pyval \<Rightarrow> pyval option" where
  "unsized_choices r =
     (case choices_attr r of None \<Rightarrow> None | Some ch \<Rightarrow> if sized ch then None else Some ch)"

section \<open>Example data\<close>

definition ex_tatum :: player where
  "ex_tatum = \<lparr>name = ''Jayson Tatum'', position = ''F-G'', height = ''6-8'',
     weight = ''210 lbs'', last_attended = ''Duke'', country = ''USA''\<rparr>"

definition ex_curry :: player where
  "ex_curry = \<lparr>name = ''Stephen Curry'', position = ''G'', height = ''6-2'',
     weight = ''185 lbs'', last_attended = ''Davidson'', country = ''USA''\<rparr>"

definition ex_doncic :: player where
  "ex_doncic = \<lparr>name = ''Luka Doncic'', position = ''F-G'', height = ''6-6'',
     weight = ''230 lbs'', last_attended = ''Real Madrid'', country = ''Slovenia''\<rparr>"

definition ex_celtics :: team where
  "ex_celtics = \<lparr>team_id = 1, team_name = ''Boston Celtics'', roster = [ex_tatum]\<rparr>"

definition ex_warriors :: team where
  "ex_warriors = \<lparr>team_id = 2, team_name = ''Golden State Warriors'', roster = [ex_curry]\<rparr>"

definition ex_lakers :: team where
  "ex_lakers = \<lparr>team_id = 3, team_name = ''Los Angeles Lakers'', roster = [ex_doncic]\<rparr>"

definition ex_east :: "real standing list" where
  "ex_east =
     [\<lparr>Team = ''Boston Celtics'', W = 61, L = 21, PCT = 0.744, GB = ''-'', L10 = ''8-2'',
       Strk = ''W2''\<rparr>,
      \<lparr>Team = ''los angeles lakers'', W = 50, L = 32, PCT = 0.61, GB = ''11'', L10 = ''6-4'',
       Strk = ''L1''\<rparr>]"

definition ex_west :: "real standing list" where
  "ex_west =
     [\<lparr>Team = ''Los Angeles Lakers'', W = 50, L = 32, PCT = 0.61, GB = ''18'', L10 = ''6-4'',
       Strk = ''L1''\<rparr>,
      \<lparr>Team = ''Golden State Warriors'', W = 48, L = 34, PCT = 0.585, GB = ''20'', L10 = ''7-3'',
       Strk = ''W1''\<rparr>]"

definition ex_game1 :: game where
  "ex_game1 = \<lparr>team1 = ''Golden State Warriors'', team2 = ''Los Angeles Lakers'',
     date = ''2025-01-15'', location = ''Chase Center''\<rparr>"

definition ex_game2 :: game where
  "ex_game2 = \<lparr>team1 = ''Team Stewar'', team2 = ''Riors Club'',
     date = ''2025-01-16'', location = ''Test Arena''\<rparr>"

definition ex_game3 :: game where
  "ex_game3 = \<lparr>team1 = ''Boston Celtics'', team2 = ''Miami Heat'',
     date = ''2025-01-15'', location = ''TD Garden''\<rparr>"

definition ex_tables :: "real tables" where
  "ex_tables = \<lparr>team_data = [ex_celtics, ex_warriors, ex_lakers],
     standings_data_eastern = ex_east, standings_data_western = ex_west,
     games_data = [ex_game1, ex_game2, ex_game3]\<rparr>"

definition ex_str :: "pyval \<Rightarrow> string" where
  "ex_str v = ''<response>''"

definition ex_str_exc :: "py_exception \<Rightarrow> string" where
  "ex_str_exc e = (case e of LibraryError cls msg \<Rightarrow> msg | _ \<Rightarrow> ''error'')"

definition ex_unsized :: pyval where
  "ex_unsized = PyObject ''Response'' [(''choices'', PyNone)]"

definition ex_resp_object :: pyval where
  "ex_resp_object =
     PyObject ''ChatCompletion''
       [(''choices'',
         PyList [PyObject ''Choice''
                   [(''message'', PyObject ''Message'' [(''content'', PyStr ''The Lakers.'')])]])]"

definition ex_resp_dict :: pyval where
  "ex_resp_dict =
     PyDict [(''choices'',
              PyList [PyDict [(''message'', PyDict [(''content'', PyStr ''The Lakers.'')])]])]"

text \<open>A response of a dict subclass that answers both to attributes and to keys.\<close>

definition ex_resp_both :: pyval where
  "ex_resp_both =
     PyDictObject ''AttrDict''
       [(''choices'',
         PyList [PyObject ''Choice''
                   [(''message'', PyObject ''Message'' [(''content'', PyStr ''by attribute'')])]])]
       [(''choices'',
         PyList [PyDict [(''message'', PyDict [(''content'', PyStr ''by key'')])]])]"

definition ex_resp_empty :: pyval where
  "ex_resp_empty = PyDict [(''choices'', PyList [])]"

definition ex_getenv :: "string \<Rightarrow> string option" where
  "ex_getenv v = (if v = ''WATSONX_URL'' then Some ''https://example.invalid'' else None)"

definition ex_lib :: "(unit, unit, unit) watsonx" where
  "ex_lib = \<lparr>Credentials = (\<lambda>url key. Inr ()), APIClient = (\<lambda>credentials. Inr ()),
     ModelInference = (\<lambda>args. Inr ()),
     model_chat = (\<lambda>m msgs. Inl (LibraryError ''ApiRequestFailure'' ''Failure during chat''))\<rparr>"

definition ex_request :: ChatRequest where
  "ex_request = \<lparr>messages =
     [\<lparr>role = ''system'', content = ''You are an NBA expert''\<rparr>,
      \<lparr>role = ''user'', content = ''Who won the 2020 finals?''\<rparr>]\<rparr>"

section \<open>Helper lemmas\<close>

lemma next_or_none_None: "next_or_none P xs = None \<longleftrightarrow> list_all (\<lambda>x. \<not> P x) xs"
  by (induction xs) auto

lemma next_or_none_Some:
  "next_or_none P xs = Some x \<Longrightarrow> x \<in> set xs \<and> P x"
  by (induction xs) (auto split: if_splits)

lemma starts_with_prefix: "starts_with xs ys = prefix xs ys"
  by (induction xs ys rule: starts_with.induct) auto

lemma py_in_sublist: "py_in xs ys = sublist xs ys"
  by (induction ys) (auto simp: starts_with_prefix sublist_Cons_right)

lemma same_letter_ascii_lower: "same_letter a b \<Longrightarrow> ascii_lower_char a = ascii_lower_char b"
proof -
  have undo: "char_of (m + 32) = c" if "(of_char c :: nat) = m + 32" for m c
    using that [symmetric] by simp
  assume "same_letter a b"
  then show ?thesis
    by (auto simp: same_letter_def ascii_lower_char_def Let_def undo)
qed

lemma case_variant_ascii_lower: "case_variant v w \<Longrightarrow> ascii_lower v = ascii_lower w"
  unfolding case_variant_def ascii_lower_def
  by (induction v w rule: list_all2_induct) (auto simp: same_letter_ascii_lower)

lemma roster_loop_eq:
  "roster_loop matches tn ps res =
     res @ map (\<lambda>p. \<lparr>pr_player = p, pr_team = tn\<rparr>) (filter matches ps)"
  by (induction ps arbitrary: res) auto

lemma team_loop_eq:
  "team_loop matches ts res =
     res @ concat (map (\<lambda>t. map (\<lambda>p. \<lparr>pr_player = p, pr_team = team_name t\<rparr>)
                               (filter matches (roster t))) ts)"
  by (induction ts arbitrary: res) (auto simp: roster_loop_eq)

lemma game_loop_eq: "game_loop matches gs res = res @ filter matches gs"
  by (induction gs arbitrary: res) auto

lemma player_match_iff:
  "player_match lower upper qn qp qc p \<longleftrightarrow>
     filter_ok (\<lambda>q. ci_substring lower q (name p)) qn
     \<and> filter_ok (\<lambda>q. ci_substring upper q (position p)) qp
     \<and> filter_ok (\<lambda>q. ci_substring lower q (country p)) qc"
  by (auto simp: player_match_def truthy_def filter_ok_def ci_substring_def py_in_sublist
      split: option.splits)

lemma game_match_iff:
  "game_match lower qt qd g \<longleftrightarrow>
     filter_ok (\<lambda>q. ci_substring_pair lower q (team1 g) (team2 g)) qt
     \<and> filter_ok (\<lambda>d. d = [] \<or> d = date g) qd"
  by (auto simp: game_match_def truthy_def filter_ok_def ci_substring_pair_def py_in_sublist
      split: option.splits)

lemma player_match_fun:
  "player_match lower upper qn qp qc =
     (\<lambda>p. filter_ok (\<lambda>q. ci_substring lower q (name p)) qn
        \<and> filter_ok (\<lambda>q. ci_substring upper q (position p)) qp
        \<and> filter_ok (\<lambda>q. ci_substring lower q (country p)) qc)"
  by (rule ext) (rule player_match_iff)


lemma concat_map_if:
  "concat (map (\<lambda>x. if P x then [f x] else []) xs) = map f (filter P xs)"
  by (induction xs) auto

lemma choices_attr_obj:
  "choices_attr (PyObject cls attrs) = map_of attrs ''choices''"
  "choices_attr (PyDictObject cls attrs kvs) = map_of attrs ''choices''"
  by (simp_all add: choices_attr_def)

lemma mapping_match_dict:
  "mapping_match (PyDict kvs) = (map_of kvs ''choices'' \<noteq> None)"
  "mapping_match (PyDictObject cls attrs kvs) = (map_of kvs ''choices'' \<noteq> None)"
  by (simp_all add: mapping_match_def map_of_eq_None_iff)

lemma py_len_sized: "sized ch \<Longrightarrow> py_len ch = Inr (elements ch)"
  by (cases ch) simp_all

lemma py_len_unsized: "\<not> sized ch \<Longrightarrow> py_len ch = Inl (TypeError_len ch)"
  by (cases ch) simp_all

lemma client_calls:
  "prefix (fst (get_watsonx_client lib getenv)) [Call_Credentials, Call_APIClient]"
  by (simp add: get_watsonx_client_def call_def bind_run_def split: sum.splits)

lemma client_ok_calls:
  "snd (get_watsonx_client lib getenv) = Inr client \<Longrightarrow>
   fst (get_watsonx_client lib getenv) = [Call_Credentials, Call_APIClient]"
  by (simp add: get_watsonx_client_def call_def bind_run_def split: sum.splits)

lemma chat_try_stage1:
  "snd (get_watsonx_client lib getenv) = Inl e \<Longrightarrow>
   chat_try lib getenv str request = (fst (get_watsonx_client lib getenv), Inl e)"
  by (cases "get_watsonx_client lib getenv") (simp add: chat_try_def bind_run_def)

lemma chat_try_stage2:
  "snd (get_watsonx_client lib getenv) = Inr client \<Longrightarrow>
   ModelInference lib (inference_args client getenv) = Inl e \<Longrightarrow>
   chat_try lib getenv str request =
     ([Call_Credentials, Call_APIClient, Call_ModelInference], Inl e)"
  using client_ok_calls [of lib getenv client]
  by (cases "get_watsonx_client lib getenv") (simp add: chat_try_def call_def bind_run_def)

lemma chat_try_stage3:
  "snd (get_watsonx_client lib getenv) = Inr client \<Longrightarrow>
   ModelInference lib (inference_args client getenv) = Inr model \<Longrightarrow>
   chat_try lib getenv str request =
     ([Call_Credentials, Call_APIClient, Call_ModelInference,
       Call_chat (convert_messages (messages request) [])],
      bind_exc (model_chat lib model (convert_messages (messages request) [])) (\<lambda>resp.
      bind_exc (extract_text str resp) make_ChatResponse))"
  using client_ok_calls [of lib getenv client]
  by (cases "get_watsonx_client lib getenv")
    (simp add: chat_try_def call_def local_def bind_run_def bind_exc_def Let_def
      split: sum.splits)

lemma chat_try_calls:
  "prefix (fst (chat_try lib getenv str request))
     [Call_Credentials, Call_APIClient, Call_ModelInference,
      Call_chat (convert_messages (messages request) [])]"
proof (cases "snd (get_watsonx_client lib getenv)")
  case (Inl e)
  have "prefix [Call_Credentials, Call_APIClient]
     [Call_Credentials, Call_APIClient, Call_ModelInference,
      Call_chat (convert_messages (messages request) [])]"
    by simp
  with client_calls [of lib getenv] have "prefix (fst (get_watsonx_client lib getenv))
     [Call_Credentials, Call_APIClient, Call_ModelInference,
      Call_chat (convert_messages (messages request) [])]"
    by (rule prefix_order.trans)
  with Inl show ?thesis by (simp add: chat_try_stage1)
next
  case (Inr client)
  then show ?thesis
    by (cases "ModelInference lib (inference_args client getenv)")
      (simp_all add: chat_try_stage2 chat_try_stage3)
qed

lemma chat_of_try:
  "chat lib getenv str str_exc request =
     (fst (chat_try lib getenv str request),
      case snd (chat_try lib getenv str request) of
        Inl e \<Rightarrow> Inl (HTTPException 500 (''Chat error: '' @ str_exc e))
      | Inr r \<Rightarrow> Inr r)"
  by (simp add: chat_def split: prod.splits sum.splits)

lemmas str_eval = ascii_lower_def ascii_upper_def ascii_lower_char_def ascii_upper_char_def
  char_of_def bit_Suc_0_iff str_int_def digits.simps digit_char_def

lemmas ex_defs = ex_tables_def ex_celtics_def ex_warriors_def ex_lakers_def ex_tatum_def
  ex_curry_def ex_doncic_def ex_east_def ex_west_def ex_game1_def ex_game2_def ex_game3_def

lemmas ci_eval = ci_equal_def ci_substring_def ci_substring_pair_def py_in_sublist [symmetric]

section \<open>Roster round trip\<close>

text \<open>
  C9: for every team id, \<open>/teams/{id}/roster\<close> answers with the roster of the team that
  \<open>/teams/{id}\<close> answers with, the same players in the same order, and the two endpoints
  fail together, with status 404, on the same ids.
\<close>

theorem roster_round_trip:
  "(case get_team_by_id T tid of
      Inr t \<Rightarrow> team_id t = tid \<and> get_team_roster T tid = Inr (roster t)
    | Inl e \<Rightarrow> status_code e = 404 \<and> get_team_roster T tid = Inl e)
   \<and> isl (get_team_by_id T tid) = (tid \<notin> team_id ` set (team_data T))
   \<and> isl (get_team_roster T tid) = (tid \<notin> team_id ` set (team_data T))"
proof -
  let ?r = "next_or_none (\<lambda>t. team_id t = tid) (team_data T)"
  have absent: "?r = None \<longleftrightarrow> tid \<notin> team_id ` set (team_data T)"
    by (auto simp: next_or_none_None list_all_iff)
  show ?thesis
  proof (cases ?r)
    case None
    with absent show ?thesis
      by (simp add: get_team_roster_def get_team_by_id_def)
  next
    case (Some t)
    with absent next_or_none_Some [OF Some] show ?thesis
      by (simp add: get_team_roster_def get_team_by_id_def)
  qed
qed

text \<open>On the example table: the roster of team 2, and an id that no team has.\<close>

lemma roster_round_trip_example:
  "get_team_by_id ex_tables 2 = Inr ex_warriors"
  "get_team_roster ex_tables 2 = Inr [ex_curry]"
  "get_team_by_id ex_tables 47 = Inl (HTTPException 404 ''Team with ID 47 not found'')"
  "get_team_roster ex_tables (- 5) = Inl (HTTPException 404 ''Team with ID -5 not found'')"
  by (simp_all add: get_team_by_id_def get_team_roster_def ex_tables_def ex_celtics_def
      ex_warriors_def ex_lakers_def str_eval)

section \<open>Lookup by name\<close>

text \<open>
  C8: looking a team up by name ignores letter case. For a team of the table, every
  name equal to its name up to letter case finds a team, the same one as the name
  itself, whose name is again equal up to letter case; it is that very team when no two
  names of the table are equal up to letter case. Whenever the lower-case mapping does
  not tell ASCII letter-case variants apart, as \<open>Lakers\<close>, \<open>LAKERS\<close> and \<open>lakers\<close>,
  every such variant of a team's name finds what the name finds. A name equal up to
  letter case to no name of the table yields 404.
\<close>

theorem get_team_by_name_case_insensitive:
  "(\<forall>t v. t \<in> set (team_data T) \<and> ci_equal lower v (team_name t) \<longrightarrow>
      (\<exists>t'. get_team_by_name lower T v = Inr t'
            \<and> get_team_by_name lower T (team_name t) = Inr t'
            \<and> ci_equal lower (team_name t') (team_name t)
            \<and> (distinct (map (\<lambda>t. lower (team_name t)) (team_data T)) \<longrightarrow> t' = t)))
   \<and> ((\<forall>a b. case_variant a b \<longrightarrow> lower a = lower b) \<longrightarrow>
        (\<forall>t v. t \<in> set (team_data T) \<and> case_variant v (team_name t) \<longrightarrow>
           (\<exists>t'. get_team_by_name lower T v = Inr t'
                 \<and> get_team_by_name lower T (team_name t) = Inr t')))
   \<and> (\<forall>q. (\<forall>t \<in> set (team_data T). \<not> ci_equal lower q (team_name t)) \<longrightarrow>
        get_team_by_name lower T q =
          Inl (HTTPException 404 (''Team '' @ [CHR 0x27] @ q @ [CHR 0x27] @ '' not found'')))"
proof -
  have found: "\<exists>t'. get_team_by_name lower T v = Inr t'
            \<and> get_team_by_name lower T (team_name t) = Inr t'
            \<and> ci_equal lower (team_name t') (team_name t)
            \<and> (distinct (map (\<lambda>t. lower (team_name t)) (team_data T)) \<longrightarrow> t' = t)"
    if a: "t \<in> set (team_data T)" and lv: "lower v = lower (team_name t)" for t v
  proof -
    let ?P = "\<lambda>u. lower (team_name u) = lower (team_name t)"
    from a have "\<not> list_all (\<lambda>u. \<not> ?P u) (team_data T)"
      by (auto simp: list_all_iff)
    then obtain t' where t': "next_or_none ?P (team_data T) = Some t'"
      by (cases "next_or_none ?P (team_data T)") (auto simp: next_or_none_None)
    from next_or_none_Some [OF t'] have in': "t' \<in> set (team_data T)" and eq': "?P t'"
      by simp_all
    have uniq: "t' = t" if d: "distinct (map (\<lambda>t. lower (team_name t)) (team_data T))"
    proof -
      from d have "inj_on (\<lambda>t. lower (team_name t)) (set (team_data T))"
        by (simp add: distinct_map)
      with in' a eq' show ?thesis
        by (auto dest: inj_onD)
    qed
    show ?thesis
      using t' eq' uniq by (auto simp: get_team_by_name_def lv ci_equal_def)
  qed
  have missing: "get_team_by_name lower T q =
          Inl (HTTPException 404 (''Team '' @ [CHR 0x27] @ q @ [CHR 0x27] @ '' not found''))"
    if "\<forall>t \<in> set (team_data T). \<not> ci_equal lower q (team_name t)" for q
  proof -
    from that have "next_or_none (\<lambda>t. lower (team_name t) = lower q) (team_data T) = None"
      by (auto simp: next_or_none_None list_all_iff ci_equal_def)
    then show ?thesis
      by (simp add: get_team_by_name_def)
  qed
  have c1: "\<forall>t v. t \<in> set (team_data T) \<and> ci_equal lower v (team_name t) \<longrightarrow>
      (\<exists>t'. get_team_by_name lower T v = Inr t'
            \<and> get_team_by_name lower T (team_name t) = Inr t'
            \<and> ci_equal lower (team_name t') (team_name t)
            \<and> (distinct (map (\<lambda>t. lower (team_name t)) (team_data T)) \<longrightarrow> t' = t))"
    using found by (simp add: ci_equal_def)
  have c2: "(\<forall>a b. case_variant a b \<longrightarrow> lower a = lower b) \<longrightarrow>
        (\<forall>t v. t \<in> set (team_data T) \<and> case_variant v (team_name t) \<longrightarrow>
           (\<exists>t'. get_team_by_name lower T v = Inr t'
                 \<and> get_team_by_name lower T (team_name t) = Inr t'))"
  proof (intro impI allI)
    fix t v
    assume h: "\<forall>a b. case_variant a b \<longrightarrow> lower a = lower b"
      and tv: "t \<in> set (team_data T) \<and> case_variant v (team_name t)"
    from h tv have "lower v = lower (team_name t)" by blast
    with found [of t v] tv
    show "\<exists>t'. get_team_by_name lower T v = Inr t'
                 \<and> get_team_by_name lower T (team_name t) = Inr t'"
      by blast
  qed
  have c3: "\<forall>q. (\<forall>t \<in> set (team_data T). \<not> ci_equal lower q (team_name t)) \<longrightarrow>
        get_team_by_name lower T q =
          Inl (HTTPException 404 (''Team '' @ [CHR 0x27] @ q @ [CHR 0x27] @ '' not found''))"
    using missing by blast
  from c1 c2 c3 show ?thesis by blast
qed

text \<open>
  On the example table the names \<open>LOS ANGELES LAKERS\<close> and \<open>los angeles lakers\<close> both find
  the Lakers, and \<open>Chicago Bulls\<close> is answered with 404.
\<close>

theorem get_team_by_name_case_insensitive_witness:
  "case_variant ''LOS ANGELES LAKERS'' (team_name ex_lakers)
   \<and> case_variant ''los angeles lakers'' (team_name ex_lakers)
   \<and> get_team_by_name ascii_lower ex_tables ''LOS ANGELES LAKERS'' = Inr ex_lakers
   \<and> get_team_by_name ascii_lower ex_tables ''los angeles lakers'' = Inr ex_lakers
   \<and> get_team_by_name ascii_lower ex_tables ''Chicago Bulls'' =
       Inl (HTTPException 404 (''Team '' @ [CHR 0x27] @ ''Chicago Bulls'' @ [CHR 0x27] @ '' not found''))"
proof -
  have m: "ex_lakers \<in> set (team_data ex_tables)"
    by (simp add: ex_tables_def)
  have v1: "case_variant ''LOS ANGELES LAKERS'' (team_name ex_lakers)"
    by (simp add: case_variant_def same_letter_def ex_lakers_def)
  have v2: "case_variant ''los angeles lakers'' (team_name ex_lakers)"
    by (simp add: case_variant_def same_letter_def ex_lakers_def)
  have e1: "ci_equal ascii_lower ''LOS ANGELES LAKERS'' (team_name ex_lakers)"
    by (simp add: ci_equal_def ex_lakers_def str_eval)
  have e2: "ci_equal ascii_lower ''los angeles lakers'' (team_name ex_lakers)"
    by (simp add: ci_equal_def ex_lakers_def str_eval)
  have d: "distinct (map (\<lambda>t. ascii_lower (team_name t)) (team_data ex_tables))"
    by (simp add: ex_defs str_eval)
  have n: "\<forall>t \<in> set (team_data ex_tables). \<not> ci_equal ascii_lower ''Chicago Bulls'' (team_name t)"
    by (simp add: ci_equal_def ex_defs str_eval)
  have cv: "\<forall>a b. case_variant a b \<longrightarrow> ascii_lower a = ascii_lower b"
    by (simp add: case_variant_ascii_lower)
  from get_team_by_name_case_insensitive [where T = ex_tables and lower = ascii_lower]
    m v1 v2 e1 e2 d n cv
  show ?thesis
    by blast
qed

section \<open>Standing of a team\<close>

text \<open>
  C3: the standing of a team is looked for in the Eastern table only, by equality of the
  \<open>Team\<close> field with the team's name. The Western table has no influence on the answer;
  a team of the table whose name no Eastern entry carries gets 404 with a detail that
  names the team, and otherwise the first Eastern entry with that name.
\<close>

theorem team_standing_eastern_only:
  "get_team_standing (T\<lparr>standings_data_western := west\<rparr>) tid = get_team_standing T tid
   \<and> (\<forall>t. next_or_none (\<lambda>t. team_id t = tid) (team_data T) = Some t \<longrightarrow>
         ((\<forall>s \<in> set (standings_data_eastern T). Team s \<noteq> team_name t) \<longrightarrow>
            get_team_standing T tid =
              Inl (HTTPException 404 (''Standing data not found for '' @ team_name t)))
         \<and> (\<forall>s. next_or_none (\<lambda>s. Team s = team_name t) (standings_data_eastern T) = Some s \<longrightarrow>
               get_team_standing T tid = Inr \<lparr>ts_team = team_name t, ts_standing = s\<rparr>))"
proof -
  have none: "next_or_none (\<lambda>s. Team s = n) (standings_data_eastern T) = None"
    if "\<forall>s \<in> set (standings_data_eastern T). Team s \<noteq> n" for n
    using that by (simp add: next_or_none_None list_all_iff)
  show ?thesis
    by (simp add: get_team_standing_def none cong: option.case_cong)
qed

text \<open>
  On the example tables the Lakers are in the Western table, and in the Eastern one only
  in lower case: their standing is not found. The Celtics get their Eastern entry.
\<close>

theorem team_standing_eastern_only_witness:
  "Team (hd (standings_data_western ex_tables)) = team_name ex_lakers
   \<and> case_variant (Team (last (standings_data_eastern ex_tables))) (team_name ex_lakers)
   \<and> get_team_standing ex_tables 3 =
       Inl (HTTPException 404 ''Standing data not found for Los Angeles Lakers'')
   \<and> get_team_standing ex_tables 1 =
       Inr \<lparr>ts_team = ''Boston Celtics'', ts_standing = hd (standings_data_eastern ex_tables)\<rparr>"
proof -
  have l: "next_or_none (\<lambda>t. team_id t = 3) (team_data ex_tables) = Some ex_lakers"
    by (simp add: ex_tables_def ex_celtics_def ex_warriors_def ex_lakers_def)
  have c: "next_or_none (\<lambda>t. team_id t = 1) (team_data ex_tables) = Some ex_celtics"
    by (simp add: ex_tables_def ex_celtics_def ex_warriors_def ex_lakers_def)
  have no: "\<forall>s \<in> set (standings_data_eastern ex_tables). Team s \<noteq> team_name ex_lakers"
    by (simp add: ex_tables_def ex_east_def ex_lakers_def)
  have yes: "next_or_none (\<lambda>s. Team s = team_name ex_celtics) (standings_data_eastern ex_tables)
      = Some (hd (standings_data_eastern ex_tables))"
    by (simp add: ex_tables_def ex_east_def ex_celtics_def)
  have w: "Team (hd (standings_data_western ex_tables)) = team_name ex_lakers"
    "case_variant (Team (last (standings_data_eastern ex_tables))) (team_name ex_lakers)"
    by (simp_all add: ex_tables_def ex_west_def ex_east_def ex_lakers_def case_variant_def
        same_letter_def)
  have n3: "team_name ex_lakers = ''Los Angeles Lakers''" and n1: "team_name ex_celtics = ''Boston Celtics''"
    by (simp_all add: ex_lakers_def ex_celtics_def)
  from team_standing_eastern_only [where T = ex_tables and west = ex_west and tid = 3] l no
  have r3: "get_team_standing ex_tables 3 =
      Inl (HTTPException 404 (''Standing data not found for '' @ team_name ex_lakers))"
    by blast
  from team_standing_eastern_only [where T = ex_tables and west = ex_west and tid = 1] c yes
  have r1: "get_team_standing ex_tables 1 =
      Inr \<lparr>ts_team = team_name ex_celtics, ts_standing = hd (standings_data_eastern ex_tables)\<rparr>"
    by blast
  from w r3 r1 show ?thesis
    by (simp add: n3 n1)
qed

section \<open>Searching players and games\<close>

text \<open>
  C2: \<open>search_players\<close> goes through the teams and, within each, through its roster,
  and keeps the pair of a player and the team's name when every supplied filter is, up
  to letter case, a substring of the player's name, position and country; an absent
  filter holds. The name and the country are compared in lower case, the position in
  upper case. With no filter every player of every team is there once, with the name of
  the team.
\<close>

theorem search_players_filters:
  "search_players lower upper T qn qp qc =
     (let res = [\<lparr>pr_player = p, pr_team = team_name t\<rparr>.
                   t \<leftarrow> team_data T, p \<leftarrow> roster t,
                   filter_ok (\<lambda>q. ci_substring lower q (name p)) qn
                   \<and> filter_ok (\<lambda>q. ci_substring upper q (position p)) qp
                   \<and> filter_ok (\<lambda>q. ci_substring lower q (country p)) qc]
      in if res = [] then Inl (HTTPException 404 ''No players found matching the criteria'')
         else Inr \<lparr>count = int (length res), results = res\<rparr>)
   \<and> search_players lower upper T None None None =
     (let res = [\<lparr>pr_player = p, pr_team = team_name t\<rparr>. t \<leftarrow> team_data T, p \<leftarrow> roster t]
      in if res = [] then Inl (HTTPException 404 ''No players found matching the criteria'')
         else Inr \<lparr>count = int (length res), results = res\<rparr>)"
  by (simp add: search_players_def team_loop_eq player_match_fun concat_map_if filter_ok_def
      Let_def del: concat_eq_Nil_conv)

text \<open>On the example table, with filters in the other case than the fields.\<close>

lemma search_players_position_example:
  "search_players ascii_lower ascii_upper ex_tables None (Some ''f-g'') (Some ''usa'') =
     Inr \<lparr>count = 1, results = [\<lparr>pr_player = ex_tatum, pr_team = ''Boston Celtics''\<rparr>]\<rparr>"
  by (simp add: search_players_def player_match_def truthy_def ex_defs str_eval)




text \<open>
  C7: an empty result is answered with 404. \<open>search_players\<close> fails with 404 exactly when
  no player of any roster satisfies the filters, \<open>search_games\<close> exactly when no game
  does; neither returns an empty list, and neither fails with another status.
\<close>

theorem empty_search_is_404:
  "(search_players lower upper T qn qp qc =
      Inl (HTTPException 404 ''No players found matching the criteria'')
      \<longleftrightarrow> (\<forall>t \<in> set (team_data T). \<forall>p \<in> set (roster t).
             \<not> (filter_ok (\<lambda>q. ci_substring lower q (name p)) qn
                \<and> filter_ok (\<lambda>q. ci_substring upper q (position p)) qp
                \<and> filter_ok (\<lambda>q. ci_substring lower q (country p)) qc)))
   \<and> (search_games lower T qt qd = Inl (HTTPException 404 ''No games found matching the criteria'')
      \<longleftrightarrow> (\<forall>g \<in> set (games_data T).
             \<not> (filter_ok (\<lambda>q. ci_substring_pair lower q (team1 g) (team2 g)) qt
                \<and> filter_ok (\<lambda>d. d = [] \<or> d = date g) qd)))
   \<and> (\<forall>r. search_players lower upper T qn qp qc = Inr r \<longrightarrow> results r \<noteq> [] \<and> count r > 0)
   \<and> search_games lower T qt qd \<noteq> Inr []
   \<and> (\<forall>e. search_players lower upper T qn qp qc = Inl e \<or> search_games lower T qt qd = Inl e
         \<longrightarrow> status_code e = 404)"
proof -
  have p: "team_loop (player_match lower upper qn qp qc) (team_data T) [] = [] \<longleftrightarrow>
      (\<forall>t \<in> set (team_data T). \<forall>p \<in> set (roster t). \<not> player_match lower upper qn qp qc p)"
    by (auto simp: team_loop_eq filter_empty_conv)
  have g: "game_loop (game_match lower qt qd) (games_data T) [] = [] \<longleftrightarrow>
      (\<forall>g \<in> set (games_data T). \<not> game_match lower qt qd g)"
    by (auto simp: game_loop_eq filter_empty_conv)
  show ?thesis
    unfolding player_match_iff [symmetric] game_match_iff [symmetric] p [symmetric] g [symmetric]
    by (auto simp: search_players_def search_games_def Let_def split: if_splits)
qed

text \<open>On the example tables: no Curry plays forward, and no Bulls game is scheduled.\<close>

theorem empty_search_is_404_witness:
  "search_players ascii_lower ascii_upper ex_tables (Some ''curry'') (Some ''f'') None =
     Inl (HTTPException 404 ''No players found matching the criteria'')
   \<and> search_games ascii_lower ex_tables (Some ''bulls'') (Some ''2025-01-15'') =
     Inl (HTTPException 404 ''No games found matching the criteria'')"
proof -
  have p: "\<forall>t \<in> set (team_data ex_tables). \<forall>p \<in> set (roster t).
      \<not> (filter_ok (\<lambda>q. ci_substring ascii_lower q (name p)) (Some ''curry'')
         \<and> filter_ok (\<lambda>q. ci_substring ascii_upper q (position p)) (Some ''f'')
         \<and> filter_ok (\<lambda>q. ci_substring ascii_lower q (country p)) None)"
    by (simp add: filter_ok_def ci_eval ex_defs str_eval)
  have g: "\<forall>g \<in> set (games_data ex_tables).
      \<not> (filter_ok (\<lambda>q. ci_substring_pair ascii_lower q (team1 g) (team2 g)) (Some ''bulls'')
         \<and> filter_ok (\<lambda>d. d = [] \<or> d = date g) (Some ''2025-01-15''))"
    by (simp add: filter_ok_def ci_eval ex_defs str_eval)
  from empty_search_is_404 [where lower = ascii_lower and upper = ascii_upper and T = ex_tables
      and qn = "Some ''curry''" and qp = "Some ''f''"
      and qc = None and qt = "Some ''bulls''" and qd = "Some ''2025-01-15''"] p g
  show ?thesis by blast
qed

text \<open>
  C10: a filter given as the empty string does what an absent filter does, for each of
  the three filters of \<open>search_players\<close> and the two of \<open>search_games\<close>. With an empty
  name filter and a table that has a player, \<open>search_players\<close> returns every player of
  every team.
\<close>

theorem empty_filter_is_absent:
  "search_players lower upper T (Some []) qp qc = search_players lower upper T None qp qc
   \<and> search_players lower upper T qn (Some []) qc = search_players lower upper T qn None qc
   \<and> search_players lower upper T qn qp (Some []) = search_players lower upper T qn qp None
   \<and> search_games lower T (Some []) qd = search_games lower T None qd
   \<and> search_games lower T qt (Some []) = search_games lower T qt None
   \<and> ((\<exists>t \<in> set (team_data T). roster t \<noteq> []) \<longrightarrow>
        search_players lower upper T (Some []) None None =
          Inr \<lparr>count = int (length (concat (map roster (team_data T)))),
               results = [\<lparr>pr_player = p, pr_team = team_name t\<rparr>. t \<leftarrow> team_data T, p \<leftarrow> roster t]\<rparr>)"
proof -
  have pm: "player_match lower upper (Some []) qp qc = player_match lower upper None qp qc"
    "player_match lower upper qn (Some []) qc = player_match lower upper qn None qc"
    "player_match lower upper qn qp (Some []) = player_match lower upper qn qp None" for qn qp qc
    by (rule ext, simp add: player_match_def truthy_def)+
  have gm: "game_match lower (Some []) qd = game_match lower None qd"
    "game_match lower qt (Some []) = game_match lower qt None" for qt qd
    by (rule ext, simp add: game_match_def truthy_def)+
  have all: "player_match lower upper None None None = (\<lambda>p. True)"
    by (rule ext) (simp add: player_match_def truthy_def)
  have len: "length (concat (map (\<lambda>t. map (\<lambda>p. \<lparr>pr_player = p, pr_team = team_name t\<rparr>) (roster t)) ts))
      = length (concat (map roster ts))" for ts :: "team list"
    by (induction ts) auto
  have cc: "concat (map (\<lambda>t. concat (map (\<lambda>p. [\<lparr>pr_player = p, pr_team = team_name t\<rparr>]) (roster t))) ts)
      = concat (map (\<lambda>t. map (\<lambda>p. \<lparr>pr_player = p, pr_team = team_name t\<rparr>) (roster t)) ts)"
    for ts :: "team list"
    by (induction ts) (auto simp: concat_map_singleton)
  have ne: "concat (map (\<lambda>t. map (\<lambda>p. \<lparr>pr_player = p, pr_team = team_name t\<rparr>) (roster t)) (team_data T)) \<noteq> []"
    if "\<exists>t \<in> set (team_data T). roster t \<noteq> []"
    using that by auto
  have eqs: "search_players lower upper T (Some []) qp qc = search_players lower upper T None qp qc
   \<and> search_players lower upper T qn (Some []) qc = search_players lower upper T qn None qc
   \<and> search_players lower upper T qn qp (Some []) = search_players lower upper T qn qp None
   \<and> search_games lower T (Some []) qd = search_games lower T None qd
   \<and> search_games lower T qt (Some []) = search_games lower T qt None"
    by (simp add: search_players_def search_games_def pm gm)
  have ex: "search_players lower upper T (Some []) None None =
          Inr \<lparr>count = int (length (concat (map roster (team_data T)))),
               results = [\<lparr>pr_player = p, pr_team = team_name t\<rparr>. t \<leftarrow> team_data T, p \<leftarrow> roster t]\<rparr>"
    if "\<exists>t \<in> set (team_data T). roster t \<noteq> []"
    using ne [OF that]
    by (simp add: search_players_def team_loop_eq pm all len cc Let_def del: concat_eq_Nil_conv)
  from eqs ex show ?thesis by blast
qed

text \<open>On the example table an empty name filter returns the three players.\<close>

theorem empty_filter_is_absent_witness:
  "search_players ascii_lower ascii_upper ex_tables (Some []) None None =
     Inr \<lparr>count = 3,
          results = [\<lparr>pr_player = ex_tatum, pr_team = ''Boston Celtics''\<rparr>,
                     \<lparr>pr_player = ex_curry, pr_team = ''Golden State Warriors''\<rparr>,
                     \<lparr>pr_player = ex_doncic, pr_team = ''Los Angeles Lakers''\<rparr>]\<rparr>
   \<and> search_games ascii_lower ex_tables None (Some []) = search_games ascii_lower ex_tables None None"
proof -
  have h: "\<exists>t \<in> set (team_data ex_tables). roster t \<noteq> []"
    by (simp add: ex_tables_def ex_celtics_def)
  from empty_filter_is_absent [where lower = ascii_lower and upper = ascii_upper
      and T = ex_tables and qn = None and qp = None and qc = None and qt = None and qd = None] h
  have "search_players ascii_lower ascii_upper ex_tables (Some []) None None =
          Inr \<lparr>count = int (length (concat (map roster (team_data ex_tables)))),
               results = [\<lparr>pr_player = p, pr_team = team_name t\<rparr>. t \<leftarrow> team_data ex_tables, p \<leftarrow> roster t]\<rparr>"
    and "search_games ascii_lower ex_tables None (Some []) = search_games ascii_lower ex_tables None None"
    by blast+
  then show ?thesis
    by (simp add: ex_tables_def ex_celtics_def ex_warriors_def ex_lakers_def)
qed

section \<open>Chat relay\<close>

text \<open>
  C4: the outbound messages follow the order of the inbound ones. A message with role
  \<open>system\<close> or \<open>assistant\<close> is forwarded with its content as plain text, one with role
  \<open>user\<close> with its content wrapped as a list of one text part, and a message with
  another role gives no outbound message.
\<close>

theorem convert_messages_by_role:
  "convert_messages msgs [] =
     concat (map (\<lambda>m. if role m = ''system'' \<or> role m = ''assistant'' then
                          [\<lparr>out_role = role m, out_content = Plain (content m)\<rparr>]
                        else if role m = ''user'' then
                          [\<lparr>out_role = ''user'',
                            out_content = Parts [\<lparr>part_type = ''text'', part_text = content m\<rparr>]\<rparr>]
                        else []) msgs)"
proof -
  have "convert_messages msgs acc = acc @
     concat (map (\<lambda>m. if role m = ''system'' \<or> role m = ''assistant'' then
                          [\<lparr>out_role = role m, out_content = Plain (content m)\<rparr>]
                        else if role m = ''user'' then
                          [\<lparr>out_role = ''user'',
                            out_content = Parts [\<lparr>part_type = ''text'', part_text = content m\<rparr>]\<rparr>]
                        else []) msgs)" for acc
    by (induction msgs arbitrary: acc) auto
  from this [of "[]"] show ?thesis by simp
qed

text \<open>
  C5, as amended: the reply is taken by the first of three ways that applies. A response
  with a \<open>choices\<close> attribute of at least one element gives
  \<open>choices[0].message.content\<close>; otherwise a dict with the key \<open>choices\<close> gives
  \<open>['choices'][0]['message']['content']\<close>; otherwise the reply is the rendering of the
  whole response as a string, and that last way never fails. The exception: a \<open>choices\<close>
  attribute that has no length makes the first test raise a \<open>TypeError\<close>, and nothing
  further is tried.
\<close>

theorem extract_text_tiers:
  "extract_text str r =
     (case unsized_choices r of
        Some ch \<Rightarrow> Inl (TypeError_len ch)
      | None \<Rightarrow>
          if structured_match r then structured_access r
          else if mapping_match r then mapping_access r
          else Inr (PyStr (str r)))"
proof (cases r)
  case (PyObject cls attrs)
  show ?thesis
  proof (cases "map_of attrs ''choices''")
    case None
    with PyObject show ?thesis
      by (simp add: extract_text_def has_choices_def bind_exc_def unsized_choices_def
          structured_match_def mapping_match_def choices_attr_obj)
  next
    case (Some ch)
    with PyObject show ?thesis
      by (cases "sized ch")
        (simp_all add: extract_text_def has_choices_def bind_exc_def unsized_choices_def
          structured_match_def mapping_match_def choices_attr_obj structured_access_def
          py_len_sized py_len_unsized)
  qed
next
  case (PyDictObject cls attrs kvs)
  show ?thesis
  proof (cases "map_of attrs ''choices''")
    case None
    with PyDictObject show ?thesis
      by (simp add: extract_text_def has_choices_def bind_exc_def unsized_choices_def
          structured_match_def mapping_match_dict choices_attr_obj mapping_access_def)
  next
    case (Some ch)
    with PyDictObject show ?thesis
      by (cases "sized ch")
        (simp_all add: extract_text_def has_choices_def bind_exc_def unsized_choices_def
          structured_match_def mapping_match_dict choices_attr_obj structured_access_def
          mapping_access_def py_len_sized py_len_unsized)
  qed
next
  case (PyDict kvs)
  then show ?thesis
    by (simp add: extract_text_def has_choices_def bind_exc_def unsized_choices_def
        structured_match_def mapping_match_dict choices_attr_def mapping_access_def)
qed (simp_all add: extract_text_def has_choices_def bind_exc_def unsized_choices_def
        structured_match_def mapping_match_def choices_attr_def)

text \<open>
  C5 without that exception fails: a response object whose \<open>choices\<close> attribute is
  \<open>None\<close> matches neither of the first two ways, and the extraction raises instead of
  rendering the response.
\<close>

theorem extract_text_unsized_counterexample:
  "\<not> structured_match ex_unsized \<and> \<not> mapping_match ex_unsized
   \<and> extract_text ex_str ex_unsized = Inl (TypeError_len PyNone)
   \<and> extract_text ex_str ex_unsized \<noteq> Inr (PyStr (ex_str ex_unsized))"
  by (simp add: ex_unsized_def structured_match_def mapping_match_def choices_attr_def
      extract_text_def has_choices_def bind_exc_def)

text \<open>
  The three ways on example responses; a response that answers to both attributes and
  keys is read by attribute; a dict whose \<open>choices\<close> list is empty raises.
\<close>

lemma extract_text_examples:
  "extract_text ex_str ex_resp_object = Inr (PyStr ''The Lakers.'')"
  "extract_text ex_str ex_resp_dict = Inr (PyStr ''The Lakers.'')"
  "extract_text ex_str ex_resp_both = Inr (PyStr ''by attribute'')"
  "extract_text ex_str (PyInt 7) = Inr (PyStr ''<response>'')"
  "extract_text ex_str ex_resp_empty = Inl (IndexError (PyList []))"
  by (simp_all add: extract_text_def has_choices_def bind_exc_def ex_resp_object_def
      ex_resp_dict_def ex_resp_both_def ex_resp_empty_def ex_str_def)

text \<open>
  C6: whichever step of the handler raises (making the client, making the model, the call
  to the service, the extraction of the reply or the construction of the answer), the
  handler answers with status 500 and the detail \<open>Chat error: \<close> followed by the text of
  that exception. Every failure of the handler is of this form. The calls made to the
  library are an initial part of: credentials, client, model, one chat call; so no call
  is repeated.
\<close>

theorem chat_failure_is_500:
  "(\<forall>e. snd (get_watsonx_client lib getenv) = Inl e \<longrightarrow>
       snd (chat lib getenv str str_exc request) =
         Inl (HTTPException 500 (''Chat error: '' @ str_exc e)))
   \<and> (\<forall>client e.
         snd (get_watsonx_client lib getenv) = Inr client
         \<and> ModelInference lib (inference_args client getenv) = Inl e \<longrightarrow>
       snd (chat lib getenv str str_exc request) =
         Inl (HTTPException 500 (''Chat error: '' @ str_exc e)))
   \<and> (\<forall>client model resp e.
         snd (get_watsonx_client lib getenv) = Inr client
         \<and> ModelInference lib (inference_args client getenv) = Inr model
         \<and> (model_chat lib model (convert_messages (messages request) []) = Inl e
            \<or> model_chat lib model (convert_messages (messages request) []) = Inr resp
              \<and> (extract_text str resp = Inl e
                 \<or> (\<exists>v. extract_text str resp = Inr v \<and> make_ChatResponse v = Inl e))) \<longrightarrow>
       chat lib getenv str str_exc request =
         ([Call_Credentials, Call_APIClient, Call_ModelInference,
           Call_chat (convert_messages (messages request) [])],
          Inl (HTTPException 500 (''Chat error: '' @ str_exc e))))
   \<and> (\<forall>e. snd (chat_try lib getenv str request) = Inl e \<longrightarrow>
         snd (chat lib getenv str str_exc request) =
           Inl (HTTPException 500 (''Chat error: '' @ str_exc e)))
   \<and> (\<forall>h. snd (chat lib getenv str str_exc request) = Inl h \<longrightarrow>
         (\<exists>e. snd (chat_try lib getenv str request) = Inl e
              \<and> h = HTTPException 500 (''Chat error: '' @ str_exc e)))
   \<and> prefix (fst (chat lib getenv str str_exc request))
        [Call_Credentials, Call_APIClient, Call_ModelInference,
         Call_chat (convert_messages (messages request) [])]"
proof (intro conjI allI impI)
  fix e
  assume "snd (get_watsonx_client lib getenv) = Inl e"
  then show "snd (chat lib getenv str str_exc request) =
         Inl (HTTPException 500 (''Chat error: '' @ str_exc e))"
    by (simp add: chat_of_try chat_try_stage1)
next
  fix client e
  assume "snd (get_watsonx_client lib getenv) = Inr client
         \<and> ModelInference lib (inference_args client getenv) = Inl e"
  then show "snd (chat lib getenv str str_exc request) =
         Inl (HTTPException 500 (''Chat error: '' @ str_exc e))"
    by (simp add: chat_of_try chat_try_stage2)
next
  fix client model resp e
  assume "snd (get_watsonx_client lib getenv) = Inr client
         \<and> ModelInference lib (inference_args client getenv) = Inr model
         \<and> (model_chat lib model (convert_messages (messages request) []) = Inl e
            \<or> model_chat lib model (convert_messages (messages request) []) = Inr resp
              \<and> (extract_text str resp = Inl e
                 \<or> (\<exists>v. extract_text str resp = Inr v \<and> make_ChatResponse v = Inl e)))"
  then show "chat lib getenv str str_exc request =
         ([Call_Credentials, Call_APIClient, Call_ModelInference,
           Call_chat (convert_messages (messages request) [])],
          Inl (HTTPException 500 (''Chat error: '' @ str_exc e)))"
    by (auto simp: chat_of_try chat_try_stage3 bind_exc_def)
next
  fix e
  assume "snd (chat_try lib getenv str request) = Inl e"
  then show "snd (chat lib getenv str str_exc request) =
           Inl (HTTPException 500 (''Chat error: '' @ str_exc e))"
    by (simp add: chat_of_try)
next
  fix h
  assume "snd (chat lib getenv str str_exc request) = Inl h"
  then show "\<exists>e. snd (chat_try lib getenv str request) = Inl e
              \<and> h = HTTPException 500 (''Chat error: '' @ str_exc e)"
    by (auto simp: chat_of_try split: sum.splits)
next
  show "prefix (fst (chat lib getenv str str_exc request))
        [Call_Credentials, Call_APIClient, Call_ModelInference,
         Call_chat (convert_messages (messages request) [])]"
    by (simp add: chat_of_try chat_try_calls)
qed

text \<open>
  On an example library whose chat call raises, the handler answers 500 with the text of
  that exception, after one call of each kind.
\<close>

theorem chat_failure_is_500_witness:
  "chat ex_lib ex_getenv ex_str ex_str_exc ex_request =
     ([Call_Credentials, Call_APIClient, Call_ModelInference,
       Call_chat [\<lparr>out_role = ''system'', out_content = Plain ''You are an NBA expert''\<rparr>,
                  \<lparr>out_role = ''user'',
                   out_content = Parts [\<lparr>part_type = ''text'',
                                         part_text = ''Who won the 2020 finals?''\<rparr>]\<rparr>]],
      Inl (HTTPException 500 ''Chat error: Failure during chat''))"
proof -
  have a: "snd (get_watsonx_client ex_lib ex_getenv) = Inr ()"
    by (simp add: get_watsonx_client_def call_def bind_run_def ex_lib_def)
  have b: "ModelInference ex_lib (inference_args () ex_getenv) = Inr ()"
    by (simp add: ex_lib_def)
  have c: "model_chat ex_lib () (convert_messages (messages ex_request) []) =
      Inl (LibraryError ''ApiRequestFailure'' ''Failure during chat'')"
    by (simp add: ex_lib_def)
  have m: "convert_messages (messages ex_request) [] =
      [\<lparr>out_role = ''system'', out_content = Plain ''You are an NBA expert''\<rparr>,
       \<lparr>out_role = ''user'',
        out_content = Parts [\<lparr>part_type = ''text'', part_text = ''Who won the 2020 finals?''\<rparr>]\<rparr>]"
    by (simp add: ex_request_def)
  from chat_failure_is_500 [where lib = ex_lib and getenv = ex_getenv and str = ex_str
      and str_exc = ex_str_exc and request = ex_request] a b c
  have "chat ex_lib ex_getenv ex_str ex_str_exc ex_request =
         ([Call_Credentials, Call_APIClient, Call_ModelInference,
           Call_chat (convert_messages (messages ex_request) [])],
          Inl (HTTPException 500 (''Chat error: '' @
            ex_str_exc (LibraryError ''ApiRequestFailure'' ''Failure during chat''))))"
    by blast
  then show ?thesis
    by (simp add: m ex_str_exc_def)
qed

end
